theory Spec2Isabelle
  imports Main "HOL-Library.Multiset"
begin

section \<open>JavaScript values\<close>

text \<open>
  The hook casts whatever \<^verbatim>\<open>JSON.parse\<close> returns to \<^verbatim>\<open>WebSocketMessage\<close> without a
  run-time check, and \<^verbatim>\<open>data\<close> is typed \<^verbatim>\<open>any\<close>, so messages are modelled as untyped
  JavaScript values. Numbers are carried along and never inspected by the hook.
\<close>

datatype jsval =
    Undefined
  | Null
  | Bool bool
  | Num int
  | Str string
  | Arr "jsval list"
  | Obj "(string \<times> jsval) list"

datatype js_error = TypeError | SyntaxError

text \<open>
  Property read \<^verbatim>\<open>v.k\<close>. Reading a property of \<^verbatim>\<open>null\<close> or \<^verbatim>\<open>undefined\<close> throws a
  TypeError; an object yields the stored value or \<^verbatim>\<open>undefined\<close>; every other value yields
  \<^verbatim>\<open>undefined\<close>. The hook only reads \<^verbatim>\<open>type\<close>, \<^verbatim>\<open>data\<close> and \<^verbatim>\<open>projectId\<close>, which no
  built-in prototype defines. An object is the list of its own properties, each key once.
\<close>

fun getProp :: "jsval \<Rightarrow> string \<Rightarrow> js_error + jsval" where
  "getProp Undefined k = Inl TypeError"
| "getProp Null k = Inl TypeError"
| "getProp (Obj kvs) k = (case map_of kvs k of None \<Rightarrow> Inr Undefined | Some v \<Rightarrow> Inr v)"
| "getProp v k = Inr Undefined"

section \<open>The browser objects the hook drives\<close>

datatype ready_state = CONNECTING | OPEN | CLOSING | CLOSED

text \<open>
  A \<^verbatim>\<open>WebSocket\<close> object: its URL, its ready state and the frames handed to
  \<^verbatim>\<open>send\<close>. The four handlers assigned in \<^verbatim>\<open>connect\<close> are the same code for every
  socket; the only thing they close over besides the refs is \<^verbatim>\<open>userId\<close>, kept in
  \<open>ws_userId\<close>.
\<close>

record websocket =
  url :: string
  readyState :: ready_state
  outbox :: "string list"
  ws_userId :: string

datatype timer_status = Pending | Fired | Cleared

text \<open>A timer made by \<^verbatim>\<open>setTimeout\<close>; its callback calls \<^verbatim>\<open>connect\<close> for \<open>timer_userId\<close>.\<close>

record timeout =
  timeout_ms :: nat
  timer_state :: timer_status
  timer_userId :: string

datatype console_entry =
    WebSocket_connected
  | WebSocket_disconnected
  | Attempting_to_reconnect nat nat
  | Failed_to_parse js_error
  | Failed_to_connect js_error
  | WebSocket_error

text \<open>
  What the hook cannot decide by itself: the build-time variable \<^verbatim>\<open>VITE_WS_URL\<close>
  (\<open>None\<close> when it is not set), whether the \<^verbatim>\<open>WebSocket\<close> constructor accepts a URL
  (it throws a SyntaxError otherwise), and the two JSON functions.
\<close>

record env =
  VITE_WS_URL :: "string option"
  url_ok :: "string \<Rightarrow> bool"
  JSON_parse :: "string \<Rightarrow> js_error + jsval"
  JSON_stringify :: "jsval \<Rightarrow> string"

section \<open>State of \<^verbatim>\<open>useWebSocket\<close>\<close>

text \<open>
  \<open>isConnected\<close> and \<open>lastMessage\<close> hold the value last passed to their setters;
  \<open>wsRef\<close>, \<open>reconnectTimeoutRef\<close> and \<open>reconnectAttempts\<close> are the three refs (a socket
  or a timer is referred to by its index in \<open>sockets\<close> or \<open>timers\<close>). \<open>invalidated\<close> lists
  the query keys passed to \<^verbatim>\<open>queryClient.invalidateQueries\<close>, in call order.
\<close>

record hook_state =
  isConnected :: bool
  lastMessage :: jsval
  wsRef :: "nat option"
  reconnectTimeoutRef :: "nat option"
  reconnectAttempts :: nat
  sockets :: "websocket list"
  timers :: "timeout list"
  invalidated :: "jsval list list"
  console :: "console_entry list"

definition initial_state :: hook_state where
  "initial_state = \<lparr>isConnected = False, lastMessage = Null, wsRef = None,
     reconnectTimeoutRef = None, reconnectAttempts = 0, sockets = [], timers = [],
     invalidated = [], console = []\<rparr>"

definition maxReconnectAttempts :: nat where
  "maxReconnectAttempts = 5"

definition console_add :: "console_entry \<Rightarrow> hook_state \<Rightarrow> hook_state" where
  "console_add e s = s\<lparr>console := console s @ [e]\<rparr>"

section \<open>\<^verbatim>\<open>handleMessage\<close>\<close>

definition invalidateQueries :: "jsval list \<Rightarrow> hook_state \<Rightarrow> hook_state" where
  "invalidateQueries queryKey s = s\<lparr>invalidated := invalidated s @ [queryKey]\<rparr>"

text \<open>The expression \<^verbatim>\<open>message.data.projectId\<close>.\<close>

definition message_data_projectId :: "jsval \<Rightarrow> js_error + jsval" where
  "message_data_projectId message =
     (case getProp message ''data'' of Inl e \<Rightarrow> Inl e | Inr d \<Rightarrow> getProp d ''projectId'')"

text \<open>
  The \<^verbatim>\<open>switch\<close> on \<^verbatim>\<open>message.type\<close> (strict equality, no default branch). A result
  \<open>Inl (e, s')\<close> is the exception \<open>e\<close> thrown after the state has become \<open>s'\<close>.
\<close>

definition handleMessage :: "jsval \<Rightarrow> hook_state \<Rightarrow> (js_error \<times> hook_state) + hook_state" where
  "handleMessage message s =
     (case getProp message ''type'' of
        Inl e \<Rightarrow> Inl (e, s)
      | Inr t \<Rightarrow>
          if t = Str ''project_update'' then
            (let s1 = invalidateQueries [Str ''projects''] s in
             case message_data_projectId message of
               Inl e \<Rightarrow> Inl (e, s1)
             | Inr p \<Rightarrow> Inr (invalidateQueries [Str ''project'', p] s1))
          else if t = Str ''milestone_update'' then
            (case message_data_projectId message of
               Inl e \<Rightarrow> Inl (e, s)
             | Inr p \<Rightarrow> Inr (invalidateQueries [Str ''milestones'', p] s))
          else if t = Str ''proposal_update'' then
            (case message_data_projectId message of
               Inl e \<Rightarrow> Inl (e, s)
             | Inr p \<Rightarrow> Inr (invalidateQueries [Str ''proposals'', p] s))
          else if t = Str ''file_upload'' then
            (case message_data_projectId message of
               Inl e \<Rightarrow> Inl (e, s)
             | Inr p \<Rightarrow> Inr (invalidateQueries [Str ''project-files'', p] s))
          else if t = Str ''notification'' then
            Inr (invalidateQueries [Str ''notifications''] s)
          else Inr s)"

text \<open>The five categories of the \<^verbatim>\<open>WebSocketMessage\<close> type.\<close>

definition recognized_kinds :: "string list" where
  "recognized_kinds =
     [''project_update'', ''milestone_update'', ''proposal_update'', ''file_upload'',
      ''notification'']"



section \<open>\<^verbatim>\<open>connect\<close> and the socket handlers\<close>

text \<open>
  The URL template of \<^verbatim>\<open>connect\<close>. \<^verbatim>\<open>a || b\<close> yields \<^verbatim>\<open>b\<close> when \<^verbatim>\<open>a\<close> is
  \<^verbatim>\<open>undefined\<close> or the empty string.
\<close>

definition wsUrl :: "env \<Rightarrow> string \<Rightarrow> string" where
  "wsUrl env userId =
     (case VITE_WS_URL env of
        None \<Rightarrow> ''wss://api.lancerscape.in''
      | Some base \<Rightarrow> if base = [] then ''wss://api.lancerscape.in'' else base)
     @ ''/ws?userId='' @ userId"

text \<open>\<^verbatim>\<open>new WebSocket(u)\<close>: a fresh socket in state CONNECTING, or a SyntaxError.\<close>

definition new_WebSocket ::
  "env \<Rightarrow> string \<Rightarrow> string \<Rightarrow> hook_state \<Rightarrow> js_error + (nat \<times> hook_state)" where
  "new_WebSocket env userId u s =
     (if url_ok env u
      then Inr (length (sockets s),
             s\<lparr>sockets := sockets s
                @ [\<lparr>url = u, readyState = CONNECTING, outbox = [], ws_userId = userId\<rparr>]\<rparr>)
      else Inl SyntaxError)"

text \<open>The body of the \<^verbatim>\<open>try\<close> block of \<^verbatim>\<open>connect\<close>, then \<^verbatim>\<open>connect\<close> with its \<^verbatim>\<open>catch\<close>.\<close>

definition connect_try :: "env \<Rightarrow> string \<Rightarrow> hook_state \<Rightarrow> (js_error \<times> hook_state) + hook_state" where
  "connect_try env userId s =
     (case new_WebSocket env userId (wsUrl env userId) s of
        Inl e \<Rightarrow> Inl (e, s)
      | Inr (sid, s') \<Rightarrow> Inr (s'\<lparr>wsRef := Some sid\<rparr>))"

definition connect :: "env \<Rightarrow> string \<Rightarrow> hook_state \<Rightarrow> hook_state" where
  "connect env userId s =
     (case connect_try env userId s of
        Inl (e, s') \<Rightarrow> console_add (Failed_to_connect e) s'
      | Inr s' \<Rightarrow> s')"

definition onopen :: "hook_state \<Rightarrow> hook_state" where
  "onopen s = (console_add WebSocket_connected s)\<lparr>isConnected := True, reconnectAttempts := 0\<rparr>"

definition onmessage_try :: "env \<Rightarrow> string \<Rightarrow> hook_state \<Rightarrow> (js_error \<times> hook_state) + hook_state" where
  "onmessage_try env event_data s =
     (case JSON_parse env event_data of
        Inl e \<Rightarrow> Inl (e, s)
      | Inr message \<Rightarrow> handleMessage message (s\<lparr>lastMessage := message\<rparr>))"

definition onmessage :: "env \<Rightarrow> string \<Rightarrow> hook_state \<Rightarrow> hook_state" where
  "onmessage env event_data s =
     (case onmessage_try env event_data s of
        Inl (e, s') \<Rightarrow> console_add (Failed_to_parse e) s'
      | Inr s' \<Rightarrow> s')"

definition setTimeout :: "nat \<Rightarrow> string \<Rightarrow> hook_state \<Rightarrow> nat \<times> hook_state" where
  "setTimeout ms userId s =
     (length (timers s),
      s\<lparr>timers := timers s @ [\<lparr>timeout_ms = ms, timer_state = Pending, timer_userId = userId\<rparr>]\<rparr>)"

definition clearTimeout :: "nat \<Rightarrow> hook_state \<Rightarrow> hook_state" where
  "clearTimeout tid s =
     (if tid < length (timers s) \<and> timer_state (timers s ! tid) = Pending
      then s\<lparr>timers := (timers s)[tid := (timers s ! tid)\<lparr>timer_state := Cleared\<rparr>]\<rparr>
      else s)"

text \<open>
  The counter stays below six, where \<^verbatim>\<open>Math.pow(2, n)\<close> and the product are exact, so the
  delay is computed on natural numbers.
\<close>

definition onclose :: "string \<Rightarrow> hook_state \<Rightarrow> hook_state" where
  "onclose userId s =
     (let s1 = (console_add WebSocket_disconnected s)\<lparr>isConnected := False\<rparr> in
      if reconnectAttempts s1 < maxReconnectAttempts then
        (let s2 = s1\<lparr>reconnectAttempts := reconnectAttempts s1 + 1\<rparr>;
             delay = min (1000 * 2 ^ reconnectAttempts s2) 30000;
             (tid, s3) = setTimeout delay userId s2
         in s3\<lparr>reconnectTimeoutRef := Some tid\<rparr>)
      else s1)"

definition onerror :: "hook_state \<Rightarrow> hook_state" where
  "onerror s = console_add WebSocket_error s"

text \<open>The function handed to \<^verbatim>\<open>setTimeout\<close> in the close handler.\<close>

definition reconnect_callback :: "env \<Rightarrow> string \<Rightarrow> hook_state \<Rightarrow> hook_state" where
  "reconnect_callback env userId s =
     connect env userId
       (console_add (Attempting_to_reconnect (reconnectAttempts s) maxReconnectAttempts) s)"

section \<open>\<^verbatim>\<open>sendMessage\<close> and the effect\<close>

definition socket_at :: "hook_state \<Rightarrow> nat \<Rightarrow> websocket option" where
  "socket_at s sid = (if sid < length (sockets s) then Some (sockets s ! sid) else None)"

definition ws_send :: "nat \<Rightarrow> string \<Rightarrow> hook_state \<Rightarrow> hook_state" where
  "ws_send sid frame s =
     s\<lparr>sockets := (sockets s)[sid := (sockets s ! sid)\<lparr>outbox := outbox (sockets s ! sid) @ [frame]\<rparr>]\<rparr>"

text \<open>
  The argument of \<^verbatim>\<open>sendMessage\<close> has type \<^verbatim>\<open>Omit<WebSocketMessage, 'timestamp'>\<close>: a
  \<^verbatim>\<open>type\<close> and a \<^verbatim>\<open>data\<close>. \<open>now\<close> is the value of \<^verbatim>\<open>new Date().toISOString()\<close>.
\<close>

definition sendMessage :: "env \<Rightarrow> string \<Rightarrow> string \<Rightarrow> jsval \<Rightarrow> hook_state \<Rightarrow> hook_state" where
  "sendMessage env now msg_type msg_data s =
     (case wsRef s of
        None \<Rightarrow> s
      | Some sid \<Rightarrow>
          (case socket_at s sid of
             None \<Rightarrow> s
           | Some ws \<Rightarrow>
               if readyState ws = OPEN
               then ws_send sid
                      (JSON_stringify env
                         (Obj [(''type'', Str msg_type), (''data'', msg_data),
                               (''timestamp'', Str now)])) s
               else s))"

text \<open>
  \<^verbatim>\<open>WebSocket.close()\<close>: a socket that is connecting or open starts closing; the browser
  fires its close event later. On a closing or closed socket the call does nothing.
\<close>

definition ws_close :: "nat \<Rightarrow> hook_state \<Rightarrow> hook_state" where
  "ws_close sid s =
     (case socket_at s sid of
        None \<Rightarrow> s
      | Some ws \<Rightarrow>
          if readyState ws = CONNECTING \<or> readyState ws = OPEN
          then s\<lparr>sockets := (sockets s)[sid := ws\<lparr>readyState := CLOSING\<rparr>]\<rparr>
          else s)"

text \<open>
  The body of \<^verbatim>\<open>useEffect\<close> and the cleanup function it returns. The two tests of the
  cleanup are on the refs: a timer handle and a socket object are never falsy, so each
  test asks whether the ref has been assigned.
\<close>

definition effect_run :: "env \<Rightarrow> string \<Rightarrow> hook_state \<Rightarrow> hook_state" where
  "effect_run env userId s = (if userId \<noteq> [] then connect env userId s else s)"

definition effect_cleanup :: "hook_state \<Rightarrow> hook_state" where
  "effect_cleanup s =
     (let s1 = (case reconnectTimeoutRef s of None \<Rightarrow> s | Some tid \<Rightarrow> clearTimeout tid s)
      in case wsRef s1 of None \<Rightarrow> s1 | Some sid \<Rightarrow> ws_close sid s1)"

section \<open>Events\<close>

text \<open>
  What can happen to a mounted hook: React runs the effect (mount, or \<^verbatim>\<open>userId\<close> changed)
  or its cleanup (unmount, or \<^verbatim>\<open>userId\<close> about to change); the browser fires open,
  message, error or close on a socket, or a timer; the application calls
  \<^verbatim>\<open>sendMessage\<close>. \<open>step\<close> is \<open>None\<close> where the browser cannot fire the event: open
  needs a connecting socket, message an open one, error and close one that is not yet
  closed, and a timer fires only while pending.
\<close>

datatype event =
    Effect string
  | Cleanup
  | Open nat
  | Message nat string
  | Error nat
  | Close nat
  | Timer nat
  | Send string string jsval

definition set_readyState :: "nat \<Rightarrow> ready_state \<Rightarrow> hook_state \<Rightarrow> hook_state" where
  "set_readyState sid r s = s\<lparr>sockets := (sockets s)[sid := (sockets s ! sid)\<lparr>readyState := r\<rparr>]\<rparr>"

definition set_timer_state :: "nat \<Rightarrow> timer_status \<Rightarrow> hook_state \<Rightarrow> hook_state" where
  "set_timer_state tid r s = s\<lparr>timers := (timers s)[tid := (timers s ! tid)\<lparr>timer_state := r\<rparr>]\<rparr>"

fun step :: "env \<Rightarrow> event \<Rightarrow> hook_state \<Rightarrow> hook_state option" where
  "step env (Effect userId) s = Some (effect_run env userId s)"
| "step env Cleanup s = Some (effect_cleanup s)"
| "step env (Open sid) s =
     (case socket_at s sid of
        None \<Rightarrow> None
      | Some ws \<Rightarrow>
          if readyState ws = CONNECTING then Some (onopen (set_readyState sid OPEN s)) else None)"
| "step env (Message sid event_data) s =
     (case socket_at s sid of
        None \<Rightarrow> None
      | Some ws \<Rightarrow> if readyState ws = OPEN then Some (onmessage env event_data s) else None)"
| "step env (Error sid) s =
     (case socket_at s sid of
        None \<Rightarrow> None
      | Some ws \<Rightarrow> if readyState ws \<noteq> CLOSED then Some (onerror s) else None)"
| "step env (Close sid) s =
     (case socket_at s sid of
        None \<Rightarrow> None
      | Some ws \<Rightarrow>
          if readyState ws \<noteq> CLOSED
          then Some (onclose (ws_userId ws) (set_readyState sid CLOSED s))
          else None)"
| "step env (Timer tid) s =
     (if tid < length (timers s) \<and> timer_state (timers s ! tid) = Pending
      then Some (reconnect_callback env (timer_userId (timers s ! tid))
                   (set_timer_state tid Fired s))
      else None)"
| "step env (Send now msg_type msg_data) s = Some (sendMessage env now msg_type msg_data s)"

fun run :: "env \<Rightarrow> event list \<Rightarrow> hook_state \<Rightarrow> hook_state option" where
  "run env [] s = Some s"
| "run env (e # es) s = (case step env e s of None \<Rightarrow> None | Some s' \<Rightarrow> run env es s')"

fun is_Open :: "event \<Rightarrow> bool" where
  "is_Open (Open sid) = True"
| "is_Open e = False"


fun is_Close :: "event \<Rightarrow> bool" where
  "is_Close (Close sid) = True"
| "is_Close e = False"

text \<open>The delay of the close handler as a function of the incremented counter.\<close>

definition backoff_delay :: "nat \<Rightarrow> nat" where
  "backoff_delay attempt = min (1000 * 2 ^ attempt) 30000"


section \<open>The milestone board\<close>

datatype milestone_status = pending | in_progress | completed

text \<open>
  The \<^verbatim>\<open>Milestone\<close> interface. \<open>'n\<close> is the type of JavaScript numbers; a milestone
  only carries its amount.
\<close>

record 'n Milestone =
  id_m :: string
  title :: string
  description :: string
  amount :: 'n
  deadline :: string
  status :: milestone_status
  deliverables :: "string list"

record 'n grouped =
  pending_col :: "'n Milestone list"
  in_progress_col :: "'n Milestone list"
  completed_col :: "'n Milestone list"

definition groupedMilestones :: "'n Milestone list \<Rightarrow> 'n grouped" where
  "groupedMilestones milestones =
     \<lparr>pending_col = filter (\<lambda>m. status m = pending) milestones,
      in_progress_col = filter (\<lambda>m. status m = in_progress) milestones,
      completed_col = filter (\<lambda>m. status m = completed) milestones\<rparr>"

text \<open>
  The arithmetic of JavaScript numbers (IEEE doubles) that the board uses: the literals
  \<^verbatim>\<open>0\<close> and \<^verbatim>\<open>100\<close>, \<^verbatim>\<open>+\<close>, \<^verbatim>\<open>/\<close>, \<^verbatim>\<open>*\<close> and \<^verbatim>\<open>>\<close>. It is a parameter: nothing
  below depends on how doubles round, overflow or divide by zero.
\<close>

record 'n js_number_ops =
  js_zero :: 'n
  js_hundred :: 'n
  js_add :: "'n \<Rightarrow> 'n \<Rightarrow> 'n"
  js_div :: "'n \<Rightarrow> 'n \<Rightarrow> 'n"
  js_mul :: "'n \<Rightarrow> 'n \<Rightarrow> 'n"
  js_gt :: "'n \<Rightarrow> 'n \<Rightarrow> bool"

definition totalAmount :: "'n js_number_ops \<Rightarrow> 'n Milestone list \<Rightarrow> 'n" where
  "totalAmount ops milestones = foldl (\<lambda>sum m. js_add ops sum (amount m)) (js_zero ops) milestones"

definition completedAmount :: "'n js_number_ops \<Rightarrow> 'n Milestone list \<Rightarrow> 'n" where
  "completedAmount ops milestones =
     foldl (\<lambda>sum m. js_add ops sum (amount m)) (js_zero ops)
       (completed_col (groupedMilestones milestones))"

definition progressPercentage :: "'n js_number_ops \<Rightarrow> 'n Milestone list \<Rightarrow> 'n" where
  "progressPercentage ops milestones =
     (if js_gt ops (totalAmount ops milestones) (js_zero ops)
      then js_mul ops (js_div ops (completedAmount ops milestones) (totalAmount ops milestones))
             (js_hundred ops)
      else js_zero ops)"

section \<open>An example environment\<close>

text \<open>
  No \<^verbatim>\<open>VITE_WS_URL\<close>, a constructor that accepts every URL, and the two JSON functions
  given on the frames of the examples below.
\<close>

definition example_env :: env where
  "example_env = \<lparr>VITE_WS_URL = None, url_ok = (\<lambda>u. True),
     JSON_parse = (\<lambda>d. if d = ''{\"type\":\"notification\"}''
                        then Inr (Obj [(''type'', Str ''notification'')]) else Inl SyntaxError),
     JSON_stringify = (\<lambda>v.
        if v = Obj [(''type'', Str ''notification''), (''data'', Null),
                    (''timestamp'', Str ''2024-01-01T00:00:00.000Z'')]
        then ''{\"type\":\"notification\",\"data\":null,\"timestamp\":\"2024-01-01T00:00:00.000Z\"}''
        else [])\<rparr>"

section \<open>Unfolding the model on concrete inputs\<close>

lemmas model_defs = example_env_def initial_state_def effect_run_def effect_cleanup_def connect_def
  connect_try_def new_WebSocket_def wsUrl_def socket_at_def set_readyState_def set_timer_state_def
  onopen_def onclose_def onerror_def onmessage_def onmessage_try_def handleMessage_def
  invalidateQueries_def message_data_projectId_def reconnect_callback_def console_add_def
  maxReconnectAttempts_def setTimeout_def clearTimeout_def ws_close_def ws_send_def sendMessage_def
  Let_def

section \<open>What each handler leaves alone\<close>

lemma handleMessage_keeps:
  "case handleMessage m s of
     Inl (e, s') \<Rightarrow> reconnectAttempts s' = reconnectAttempts s \<and> timers s' = timers s
        \<and> sockets s' = sockets s \<and> wsRef s' = wsRef s \<and> lastMessage s' = lastMessage s
        \<and> isConnected s' = isConnected s \<and> reconnectTimeoutRef s' = reconnectTimeoutRef s
   | Inr s' \<Rightarrow> reconnectAttempts s' = reconnectAttempts s \<and> timers s' = timers s
        \<and> sockets s' = sockets s \<and> wsRef s' = wsRef s \<and> lastMessage s' = lastMessage s
        \<and> isConnected s' = isConnected s \<and> reconnectTimeoutRef s' = reconnectTimeoutRef s"
  by (simp add: handleMessage_def invalidateQueries_def Let_def split: sum.split)

lemma onmessage_keeps:
  "reconnectAttempts (onmessage env d s) = reconnectAttempts s"
  "timers (onmessage env d s) = timers s"
  "sockets (onmessage env d s) = sockets s"
  "wsRef (onmessage env d s) = wsRef s"
  "isConnected (onmessage env d s) = isConnected s"
  "reconnectTimeoutRef (onmessage env d s) = reconnectTimeoutRef s"
proof -
  have "reconnectAttempts (onmessage env d s) = reconnectAttempts s
    \<and> timers (onmessage env d s) = timers s
    \<and> sockets (onmessage env d s) = sockets s
    \<and> wsRef (onmessage env d s) = wsRef s
    \<and> isConnected (onmessage env d s) = isConnected s
    \<and> reconnectTimeoutRef (onmessage env d s) = reconnectTimeoutRef s"
  proof (cases "JSON_parse env d")
    case (Inl e)
    then show ?thesis by (simp add: onmessage_def onmessage_try_def console_add_def)
  next
    case (Inr m)
    with handleMessage_keeps [where m = m and s = "s\<lparr>lastMessage := m\<rparr>"]
    show ?thesis
      by (cases "handleMessage m (s\<lparr>lastMessage := m\<rparr>)")
         (auto simp: onmessage_def onmessage_try_def console_add_def)
  qed
  then show "reconnectAttempts (onmessage env d s) = reconnectAttempts s"
    "timers (onmessage env d s) = timers s"
    "sockets (onmessage env d s) = sockets s"
    "wsRef (onmessage env d s) = wsRef s"
    "isConnected (onmessage env d s) = isConnected s"
    "reconnectTimeoutRef (onmessage env d s) = reconnectTimeoutRef s"
    by simp_all
qed

lemma map_timeout_ms_update:
  "map timeout_ms (xs[i := (xs ! i)\<lparr>timer_state := r\<rparr>]) = map timeout_ms xs"
  by (induction xs arbitrary: i) (auto split: nat.splits)

lemma connect_keeps:
  "reconnectAttempts (connect env u s) = reconnectAttempts s"
  "timers (connect env u s) = timers s"
  by (auto simp: connect_def connect_try_def new_WebSocket_def console_add_def split: sum.splits)

lemma onclose_cases:
  "reconnectAttempts s < maxReconnectAttempts \<Longrightarrow>
     reconnectAttempts (onclose u s) = Suc (reconnectAttempts s)
     \<and> timers (onclose u s) = timers s @ [\<lparr>timeout_ms = backoff_delay (Suc (reconnectAttempts s)),
           timer_state = Pending, timer_userId = u\<rparr>]"
  "\<not> reconnectAttempts s < maxReconnectAttempts \<Longrightarrow>
     reconnectAttempts (onclose u s) = reconnectAttempts s \<and> timers (onclose u s) = timers s"
  by (simp_all add: onclose_def console_add_def setTimeout_def backoff_delay_def Let_def)

lemma cleanup_keeps:
  "reconnectAttempts (effect_cleanup s) = reconnectAttempts s"
  "map timeout_ms (timers (effect_cleanup s)) = map timeout_ms (timers s)"
  by (auto simp: effect_cleanup_def clearTimeout_def ws_close_def Let_def map_timeout_ms_update
      split: option.splits)

lemma send_keeps:
  "reconnectAttempts (sendMessage env now t d s) = reconnectAttempts s"
  "timers (sendMessage env now t d s) = timers s"
  by (auto simp: sendMessage_def ws_send_def split: option.splits)


lemma effect_run_keeps:
  "reconnectAttempts (effect_run env u s) = reconnectAttempts s"
  "timers (effect_run env u s) = timers s"
  by (simp_all add: effect_run_def connect_keeps)

lemma onopen_keeps:
  "reconnectAttempts (onopen s) = 0"
  "isConnected (onopen s)"
  "timers (onopen s) = timers s"
  by (simp_all add: onopen_def console_add_def)

lemma onerror_keeps:
  "reconnectAttempts (onerror s) = reconnectAttempts s"
  "timers (onerror s) = timers s"
  by (simp_all add: onerror_def console_add_def)

lemma set_readyState_keeps:
  "reconnectAttempts (set_readyState sid r s) = reconnectAttempts s"
  "timers (set_readyState sid r s) = timers s"
  by (simp_all add: set_readyState_def)

lemma reconnect_callback_keeps:
  "reconnectAttempts (reconnect_callback env u (set_timer_state tid r s)) = reconnectAttempts s"
  "map timeout_ms (timers (reconnect_callback env u (set_timer_state tid r s)))
     = map timeout_ms (timers s)"
  by (simp_all add: reconnect_callback_def connect_keeps console_add_def set_timer_state_def
      map_timeout_ms_update)

lemma step_Open_D:
  "step env (Open sid) s = Some s' \<Longrightarrow> s' = onopen (set_readyState sid OPEN s)"
  by (simp split: option.splits if_splits)

lemma step_Message_D:
  "step env (Message sid d) s = Some s' \<Longrightarrow> s' = onmessage env d s"
  by (simp split: option.splits if_splits)

lemma step_Error_D:
  "step env (Error sid) s = Some s' \<Longrightarrow> s' = onerror s"
  by (simp split: option.splits if_splits)

lemma step_Close_D:
  "step env (Close sid) s = Some s' \<Longrightarrow>
     \<exists>ws. socket_at s sid = Some ws \<and> readyState ws \<noteq> CLOSED
       \<and> s' = onclose (ws_userId ws) (set_readyState sid CLOSED s)"
  by (simp split: option.splits if_splits)

lemma step_Timer_D:
  "step env (Timer tid) s = Some s' \<Longrightarrow>
     tid < length (timers s) \<and> timer_state (timers s ! tid) = Pending
     \<and> s' = reconnect_callback env (timer_userId (timers s ! tid)) (set_timer_state tid Fired s)"
  by (simp split: if_splits)

text \<open>What one step does to the retry counter and to the list of scheduled delays.\<close>

lemma step_counter_timers:
  assumes "step env e s = Some s'"
  shows "(is_Open e \<and> reconnectAttempts s' = 0
            \<and> map timeout_ms (timers s') = map timeout_ms (timers s))
       \<or> (reconnectAttempts s' = reconnectAttempts s
            \<and> map timeout_ms (timers s') = map timeout_ms (timers s))
       \<or> (reconnectAttempts s < maxReconnectAttempts
            \<and> reconnectAttempts s' = Suc (reconnectAttempts s)
            \<and> map timeout_ms (timers s')
                = map timeout_ms (timers s) @ [backoff_delay (Suc (reconnectAttempts s))])"
proof (cases e)
  case (Effect u)
  with assms have "s' = effect_run env u s" by simp
  then show ?thesis by (simp add: effect_run_keeps)
next
  case Cleanup
  with assms have "s' = effect_cleanup s" by simp
  then show ?thesis by (simp add: cleanup_keeps)
next
  case (Open sid)
  with assms have "s' = onopen (set_readyState sid OPEN s)" by (simp add: step_Open_D)
  with Open show ?thesis by (simp add: onopen_keeps set_readyState_keeps)
next
  case (Message sid d)
  with assms have "s' = onmessage env d s" by (simp add: step_Message_D)
  then show ?thesis by (simp add: onmessage_keeps)
next
  case (Error sid)
  with assms have "s' = onerror s" by (simp add: step_Error_D)
  then show ?thesis by (simp add: onerror_keeps)
next
  case (Close sid)
  with assms have "step env (Close sid) s = Some s'" by simp
  from step_Close_D [OF this]
  obtain ws :: websocket where s': "s' = onclose (ws_userId ws) (set_readyState sid CLOSED s)"
    by blast
  show ?thesis
  proof (cases "reconnectAttempts s < maxReconnectAttempts")
    case True
    with onclose_cases(1) [of "set_readyState sid CLOSED s" "ws_userId ws"] s'
    show ?thesis by (simp add: set_readyState_keeps)
  next
    case False
    with onclose_cases(2) [of "set_readyState sid CLOSED s" "ws_userId ws"] s'
    show ?thesis by (simp add: set_readyState_keeps)
  qed
next
  case (Timer tid)
  with assms have "step env (Timer tid) s = Some s'" by simp
  from step_Timer_D [OF this]
  have "s' = reconnect_callback env (timer_userId (timers s ! tid)) (set_timer_state tid Fired s)"
    by blast
  then show ?thesis by (simp add: reconnect_callback_keeps)
next
  case (Send now t d)
  with assms have "s' = sendMessage env now t d s" by simp
  then show ?thesis by (simp add: send_keeps)
qed

section \<open>Runs\<close>


lemma run_append:
  "run env (xs @ ys) s = (case run env xs s of None \<Rightarrow> None | Some s1 \<Rightarrow> run env ys s1)"
  by (induction xs arbitrary: s) (auto split: option.splits)

lemma step_counter_le:
  assumes "step env e s = Some s'" and "reconnectAttempts s \<le> maxReconnectAttempts"
  shows "reconnectAttempts s' \<le> maxReconnectAttempts"
  using step_counter_timers [OF assms(1)] assms(2) by auto

lemma run_counter_le:
  "run env es s = Some s' \<Longrightarrow> reconnectAttempts s \<le> maxReconnectAttempts
     \<Longrightarrow> reconnectAttempts s' \<le> maxReconnectAttempts"
proof (induction es arbitrary: s)
  case Nil
  then show ?case by simp
next
  case (Cons e es)
  from Cons.prems(1) obtain s1 where s1: "step env e s = Some s1" "run env es s1 = Some s'"
    by (auto split: option.splits)
  from step_counter_le [OF s1(1) Cons.prems(2)] Cons.IH [OF s1(2)] show ?case by blast
qed

lemma backoff_table:
  assumes "n \<le> 5"
  shows "map backoff_delay [1..<Suc n] = take n (map backoff_delay [1, 2, 3, 4, 5])"
proof -
  from assms consider "n = 0" | "n = 1" | "n = 2" | "n = 3" | "n = 4" | "n = 5" by linarith
  then show ?thesis
    by cases (simp_all add: upt_rec eval_nat_numeral)
qed

lemma backoff_values:
  "map backoff_delay [1, 2, 3, 4, 5] = [2000, 4000, 8000, 16000, 30000]"
  by (simp add: backoff_delay_def)






lemma step_counter_exact:
  assumes "step env e s = Some s'"
  shows "reconnectAttempts s' =
           (if is_Open e then 0
            else if is_Close e \<and> reconnectAttempts s < maxReconnectAttempts
            then Suc (reconnectAttempts s) else reconnectAttempts s)"
proof (cases e)
  case (Effect u)
  with assms have "s' = effect_run env u s" by simp
  with Effect show ?thesis by (simp add: effect_run_keeps)
next
  case Cleanup
  with assms have "s' = effect_cleanup s" by simp
  with Cleanup show ?thesis by (simp add: cleanup_keeps)
next
  case (Open sid)
  with assms have "s' = onopen (set_readyState sid OPEN s)" by (simp add: step_Open_D)
  with Open show ?thesis by (simp add: onopen_keeps)
next
  case (Message sid d)
  with assms have "s' = onmessage env d s" by (simp add: step_Message_D)
  with Message show ?thesis by (simp add: onmessage_keeps)
next
  case (Error sid)
  with assms have "s' = onerror s" by (simp add: step_Error_D)
  with Error show ?thesis by (simp add: onerror_keeps)
next
  case (Close sid)
  with assms have "step env (Close sid) s = Some s'" by simp
  from step_Close_D [OF this]
  obtain ws :: websocket where s': "s' = onclose (ws_userId ws) (set_readyState sid CLOSED s)"
    by blast
  show ?thesis
  proof (cases "reconnectAttempts s < maxReconnectAttempts")
    case True
    with onclose_cases(1) [of "set_readyState sid CLOSED s" "ws_userId ws"] s' Close
    show ?thesis by (simp add: set_readyState_keeps)
  next
    case False
    with onclose_cases(2) [of "set_readyState sid CLOSED s" "ws_userId ws"] s' Close
    show ?thesis by (simp add: set_readyState_keeps)
  qed
next
  case (Timer tid)
  with assms have "step env (Timer tid) s = Some s'" by simp
  from step_Timer_D [OF this]
  have "s' = reconnect_callback env (timer_userId (timers s ! tid)) (set_timer_state tid Fired s)"
    by blast
  with Timer show ?thesis by (simp add: reconnect_callback_keeps)
next
  case (Send now t d)
  with assms have "s' = sendMessage env now t d s" by simp
  with Send show ?thesis by (simp add: send_keeps)
qed

lemma run_counter_closes:
  "run env es s = Some s' \<Longrightarrow> list_all (\<lambda>e. \<not> is_Open e) es
     \<Longrightarrow> reconnectAttempts s \<le> maxReconnectAttempts
     \<Longrightarrow> reconnectAttempts s'
           = min maxReconnectAttempts (reconnectAttempts s + length (filter is_Close es))"
proof (induction es arbitrary: s)
  case Nil
  then show ?case by simp
next
  case (Cons e es)
  from Cons.prems(1) obtain s1 where s1: "step env e s = Some s1" "run env es s1 = Some s'"
    by (auto split: option.splits)
  from Cons.prems(2) have no: "\<not> is_Open e" "list_all (\<lambda>e. \<not> is_Open e) es" by simp_all
  from step_counter_le [OF s1(1) Cons.prems(3)]
  have le: "reconnectAttempts s1 \<le> maxReconnectAttempts" .
  from Cons.IH [OF s1(2) no(2) le] step_counter_exact [OF s1(1)] no(1) Cons.prems(3)
  show ?case by (auto simp: min_def)
qed


lemma run_snoc:
  "run env es s = Some s1 \<Longrightarrow> step env e s1 = Some s2 \<Longrightarrow> run env (es @ [e]) s = Some s2"
  by (simp add: run_append)

lemma run_delays_from:
  "run env es s = Some s' \<Longrightarrow> list_all (\<lambda>e. \<not> is_Open e) es
     \<Longrightarrow> reconnectAttempts s \<le> reconnectAttempts s'
        \<and> map timeout_ms (timers s')
            = map timeout_ms (timers s)
              @ map backoff_delay [Suc (reconnectAttempts s)..<Suc (reconnectAttempts s')]"
proof (induction es arbitrary: s)
  case Nil
  then show ?case by simp
next
  case (Cons e es)
  from Cons.prems(1) obtain s1 where s1: "step env e s = Some s1" "run env es s1 = Some s'"
    by (auto split: option.splits)
  from Cons.prems(2) have no: "\<not> is_Open e" "list_all (\<lambda>e. \<not> is_Open e) es" by simp_all
  from Cons.IH [OF s1(2) no(2)]
  have le: "reconnectAttempts s1 \<le> reconnectAttempts s'"
    and ih: "map timeout_ms (timers s')
       = map timeout_ms (timers s1)
         @ map backoff_delay [Suc (reconnectAttempts s1)..<Suc (reconnectAttempts s')]"
    by simp_all
  from step_counter_timers [OF s1(1)] no(1)
  consider
      (same) "reconnectAttempts s1 = reconnectAttempts s"
        "map timeout_ms (timers s1) = map timeout_ms (timers s)"
    | (more) "reconnectAttempts s1 = Suc (reconnectAttempts s)"
        "map timeout_ms (timers s1)
           = map timeout_ms (timers s) @ [backoff_delay (Suc (reconnectAttempts s))]"
    by blast
  then show ?case
  proof cases
    case same
    with le ih show ?thesis by simp
  next
    case more
    from more(1) le have lt: "Suc (reconnectAttempts s) < Suc (reconnectAttempts s')" by simp
    from upt_conv_Cons [OF lt]
    have "[Suc (reconnectAttempts s)..<Suc (reconnectAttempts s')]
        = Suc (reconnectAttempts s) # [Suc (reconnectAttempts s1)..<Suc (reconnectAttempts s')]"
      by (simp add: more(1))
    with more le ih show ?thesis by simp
  qed
qed

lemma run_ends_with_Open:
  assumes "run env es s = Some s'" and "es \<noteq> []" and "is_Open (last es)"
  shows "reconnectAttempts s' = 0"
proof -
  from assms(2) have es: "es = butlast es @ [last es]" by simp
  from assms(3) obtain sid where l: "last es = Open sid" by (cases "last es") simp_all
  from assms(1) es l have "run env (butlast es @ [Open sid]) s = Some s'" by simp
  then obtain s1 where "step env (Open sid) s1 = Some s'"
    by (auto simp: run_append split: option.splits)
  from step_Open_D [OF this] show ?thesis by (simp add: onopen_keeps)
qed


section \<open>Routing\<close>










section \<open>Teardown\<close>

text \<open>
  C2. The claim: after the effect cleanup nothing happens any more (no state change, no
  reconnect, no invalidation). The code at a concrete run: the effect connects for user
  \<^verbatim>\<open>u1\<close>, the socket opens, the cleanup runs. The cleanup finds no timer to clear and
  calls \<^verbatim>\<open>close()\<close> on the socket, whose close handler is still attached. When the
  browser then fires the close event, the handler sets \<open>isConnected\<close> to false, raises
  the retry counter to 1 and schedules a timer of 2000 ms; the timer fires and \<^verbatim>\<open>connect\<close>
  opens a second socket; its open event sets \<open>isConnected\<close> to true, and a notification
  frame on it invalidates \<^verbatim>\<open>['notifications']\<close>. The first equation is the state right
  after the cleanup, the second the state after the four later events.
\<close>

theorem teardown_does_not_stop_reconnects:
  "run example_env [Effect ''u1'', Open 0, Cleanup] initial_state = Some
     \<lparr>isConnected = True, lastMessage = Null, wsRef = Some 0,
      reconnectTimeoutRef = None, reconnectAttempts = 0,
      sockets =
        [\<lparr>url = ''wss://api.lancerscape.in/ws?userId=u1'',
            readyState = CLOSING, outbox = [], ws_userId = ''u1''\<rparr>],
      timers = [], invalidated = [], console = [WebSocket_connected]\<rparr>
   \<and> run example_env
        [Effect ''u1'', Open 0, Cleanup,
         Close 0, Timer 0, Open 1, Message 1 ''{\"type\":\"notification\"}''] initial_state = Some
     \<lparr>isConnected = True, lastMessage = Obj [(''type'', Str ''notification'')],
      wsRef = Some 1, reconnectTimeoutRef = Some 0, reconnectAttempts = 0,
      sockets =
        [\<lparr>url = ''wss://api.lancerscape.in/ws?userId=u1'',
            readyState = CLOSED, outbox = [], ws_userId = ''u1''\<rparr>,
         \<lparr>url = ''wss://api.lancerscape.in/ws?userId=u1'', readyState = OPEN,
            outbox = [], ws_userId = ''u1''\<rparr>],
      timers = [\<lparr>timeout_ms = 2000, timer_state = Fired, timer_userId = ''u1''\<rparr>],
      invalidated = [[Str ''notifications'']],
      console =
        [WebSocket_connected, WebSocket_disconnected,
         Attempting_to_reconnect 1 5, WebSocket_connected]\<rparr>"
  by (simp add: model_defs)

section \<open>Reconnection\<close>

text \<open>
  C3. Take any state \<open>s\<close> reachable from the initial state and any continuation in which no
  socket opens. Afterwards the retry counter is the counter of \<open>s\<close> plus the number of
  closes in the continuation, capped at 5, and the timers scheduled in the continuation
  have, in order, the delays \<open>min (1000 * 2 ^ attempt) 30000\<close> for \<open>attempt\<close> from the counter
  of \<open>s\<close> plus one up to the counter afterwards: every close that schedules a timer uses the
  counter's value after its own increment. At a fresh start and right after a successful
  open the counter is 0, so the closes that follow schedule the first entries of
  2000, 4000, 8000, 16000, 30000, one per close.
\<close>

theorem backoff_delay_sequence:
  assumes "run env es initial_state = Some s"
    and "run env es' s = Some s'"
    and "list_all (\<lambda>e. \<not> is_Open e) es'"
  shows "reconnectAttempts s' = min 5 (reconnectAttempts s + length (filter is_Close es'))
     \<and> map timeout_ms (timers s')
         = map timeout_ms (timers s)
           @ map (\<lambda>attempt. min (1000 * 2 ^ attempt) 30000)
               [Suc (reconnectAttempts s)..<Suc (reconnectAttempts s')]
     \<and> (es = [] \<or> is_Open (last es) \<longrightarrow>
          reconnectAttempts s = 0
          \<and> map timeout_ms (timers s')
              = map timeout_ms (timers s)
                @ take (length (filter is_Close es')) [2000, 4000, 8000, 16000, 30000])"
proof -
  have init: "reconnectAttempts initial_state \<le> maxReconnectAttempts"
    by (simp add: initial_state_def)
  from run_counter_le [OF assms(1) init]
  have le: "reconnectAttempts s \<le> maxReconnectAttempts" .
  from run_counter_closes [OF assms(2,3) le]
  have n: "reconnectAttempts s' = min 5 (reconnectAttempts s + length (filter is_Close es'))"
    by (simp add: maxReconnectAttempts_def)
  have f: "backoff_delay = (\<lambda>attempt. min (1000 * 2 ^ attempt) 30000)"
    by (rule ext) (simp add: backoff_delay_def)
  from run_delays_from [OF assms(2,3)]
  have d: "map timeout_ms (timers s')
         = map timeout_ms (timers s)
           @ map backoff_delay [Suc (reconnectAttempts s)..<Suc (reconnectAttempts s')]"
    by simp
  have z: "reconnectAttempts s = 0
          \<and> map timeout_ms (timers s')
              = map timeout_ms (timers s)
                @ take (length (filter is_Close es')) [2000, 4000, 8000, 16000, 30000]"
    if fresh: "es = [] \<or> is_Open (last es)"
  proof -
    have c0: "reconnectAttempts s = 0"
    proof (cases "es = []")
      case True
      with assms(1) have "s = initial_state" by simp
      then show ?thesis by (simp add: initial_state_def)
    next
      case False
      with fresh have "is_Open (last es)" by simp
      from run_ends_with_Open [OF assms(1) False this] show ?thesis .
    qed
    from n have "reconnectAttempts s' \<le> 5" by simp
    from backoff_table [OF this] backoff_values
    have "map backoff_delay [1..<Suc (reconnectAttempts s')]
        = take (reconnectAttempts s') [2000, 4000, 8000, 16000, 30000]"
      by simp
    moreover from n c0
    have "take (reconnectAttempts s') [2000, 4000, 8000, 16000, 30000::nat]
        = take (length (filter is_Close es')) [2000, 4000, 8000, 16000, 30000]"
      by (simp add: min_def split: if_splits)
    ultimately show ?thesis using d c0 by simp
  qed
  from d have d': "map timeout_ms (timers s')
         = map timeout_ms (timers s)
           @ map (\<lambda>attempt. min (1000 * 2 ^ attempt) 30000)
               [Suc (reconnectAttempts s)..<Suc (reconnectAttempts s')]"
    by (simp only: f)
  from n d' z show ?thesis by blast
qed

theorem backoff_delay_sequence_witness:
  "map_option (\<lambda>s. map timeout_ms (timers s))
     (run example_env
        [Effect ''u1'', Open 0, Close 0, Timer 0, Open 1,
         Close 1, Timer 1, Close 2, Timer 2, Close 3, Timer 3, Close 4, Timer 4, Close 5]
        initial_state)
   = Some [2000, 2000, 4000, 8000, 16000, 30000]
   \<and> map_option (\<lambda>s. map timeout_ms (timers s))
     (run example_env [Effect ''u1'', Open 0, Close 0] initial_state) = Some [2000]"
proof -
  define pre where "pre = [Effect ''u1'', Open 0, Close 0, Timer 0, Open 1]"
  define post where "post = [Close 1, Timer 1, Close 2, Timer 2, Close 3, Timer 3, Close 4,
    Timer 4, Close 5]"
  define s where "s =
    \<lparr>isConnected = True, lastMessage = Null, wsRef = Some 1,
     reconnectTimeoutRef = Some 0, reconnectAttempts = 0,
     sockets =
       [\<lparr>url = ''wss://api.lancerscape.in/ws?userId=u1'',
           readyState = CLOSED, outbox = [], ws_userId = ''u1''\<rparr>,
        \<lparr>url = ''wss://api.lancerscape.in/ws?userId=u1'', readyState = OPEN,
           outbox = [], ws_userId = ''u1''\<rparr>],
     timers = [\<lparr>timeout_ms = 2000, timer_state = Fired, timer_userId = ''u1''\<rparr>],
     invalidated = [],
     console = [WebSocket_connected, WebSocket_disconnected, Attempting_to_reconnect 1 5,
        WebSocket_connected]\<rparr>"
  have r1: "run example_env pre initial_state = Some s"
    by (simp add: pre_def s_def model_defs)
  obtain s' where r2: "run example_env post s = Some s'"
    by (simp add: post_def s_def model_defs)
  have no: "list_all (\<lambda>e. \<not> is_Open e) post" and k: "length (filter is_Close post) = 5"
    and l: "is_Open (last pre)"
    by (simp_all add: post_def pre_def)
  from backoff_delay_sequence [OF r1 r2 no] l
  have "map timeout_ms (timers s')
      = map timeout_ms (timers s)
        @ take (length (filter is_Close post)) [2000, 4000, 8000, 16000, 30000]"
    by blast
  with k
  have "map timeout_ms (timers s') = map timeout_ms (timers s) @ [2000, 4000, 8000, 16000, 30000]"
    by simp
  then have a: "map timeout_ms (timers s') = [2000, 2000, 4000, 8000, 16000, 30000]"
    by (simp add: s_def)
  from r1 r2 have "run example_env (pre @ post) initial_state = Some s'"
    by (simp add: run_append)
  with a have a': "map_option (\<lambda>s. map timeout_ms (timers s))
      (run example_env (pre @ post) initial_state) = Some [2000, 2000, 4000, 8000, 16000, 30000]"
    by simp
  define t where "t =
    \<lparr>isConnected = True, lastMessage = Null, wsRef = Some 0,
     reconnectTimeoutRef = None, reconnectAttempts = 0,
     sockets =
       [\<lparr>url = ''wss://api.lancerscape.in/ws?userId=u1'', readyState = OPEN,
           outbox = [], ws_userId = ''u1''\<rparr>],
     timers = [], invalidated = [], console = [WebSocket_connected]\<rparr>"
  have q1: "run example_env [Effect ''u1'', Open 0] initial_state = Some t"
    by (simp add: t_def model_defs)
  obtain t' where q2: "run example_env [Close 0] t = Some t'"
    by (simp add: t_def model_defs)
  have "list_all (\<lambda>e. \<not> is_Open e) [Close 0]"
    and "is_Open (last [Effect ''u1'', Open 0])"
    by simp_all
  with backoff_delay_sequence [OF q1 q2]
  have "map timeout_ms (timers t')
      = map timeout_ms (timers t)
        @ take (length (filter is_Close [Close 0])) [2000, 4000, 8000, 16000, 30000]"
    by blast
  then have b: "map timeout_ms (timers t') = [2000]" by (simp add: t_def)
  from q1 q2 have "run example_env ([Effect ''u1'', Open 0] @ [Close 0]) initial_state = Some t'"
    unfolding run_append by simp
  with b have b': "map_option (\<lambda>s. map timeout_ms (timers s))
      (run example_env [Effect ''u1'', Open 0, Close 0] initial_state) = Some [2000]"
    by simp
  from a' b' show ?thesis by (simp only: pre_def post_def append.simps)
qed




text \<open>
  C5. For an envelope whose \<^verbatim>\<open>type\<close> is none of the five recognized categories,
  \<open>handleMessage\<close> returns normally with the state unchanged: nothing is invalidated,
  nothing is thrown, and the connection and every other field stay as they were.
\<close>

theorem handleMessage_unrecognized_noop:
  assumes "getProp message ''type'' = Inr t"
    and "t \<notin> Str ` set recognized_kinds"
  shows "handleMessage message s = Inr s"
  using assms by (auto simp: handleMessage_def recognized_kinds_def)

theorem handleMessage_unrecognized_noop_witness:
  "handleMessage (Obj [(''type'', Str ''chat_message''), (''data'', Null)]) initial_state
     = Inr initial_state"
  using handleMessage_unrecognized_noop [of "Obj [(''type'', Str ''chat_message''), (''data'', Null)]"
      "Str ''chat_message''" initial_state]
  by (simp add: recognized_kinds_def)

section \<open>The handlers\<close>

text \<open>
  C6. Whenever the browser fires the open event of a socket, after any run whatever, the
  retry counter is 0 and \<open>isConnected\<close> is true in the resulting state.
\<close>

theorem open_resets_retry_counter:
  assumes "run env (es @ [Open sid]) s = Some s'"
  shows "reconnectAttempts s' = 0 \<and> isConnected s'"
proof -
  from assms obtain s1 where "step env (Open sid) s1 = Some s'"
    by (auto simp: run_append split: option.splits)
  from step_Open_D [OF this] show ?thesis by (simp add: onopen_keeps)
qed

theorem open_resets_retry_counter_witness:
  "map_option reconnectAttempts
     (run example_env [Effect ''u1'', Open 0, Close 0, Timer 0] initial_state) = Some 1
   \<and> map_option reconnectAttempts
     (run example_env [Effect ''u1'', Open 0, Close 0, Timer 0, Open 1] initial_state) = Some 0
   \<and> map_option isConnected
     (run example_env [Effect ''u1'', Open 0, Close 0, Timer 0, Open 1] initial_state) = Some True"
proof -
  have before: "run example_env [Effect ''u1'', Open 0, Close 0, Timer 0] initial_state = Some
    \<lparr>isConnected = False, lastMessage = Null, wsRef = Some 1,
     reconnectTimeoutRef = Some 0, reconnectAttempts = 1,
     sockets =
       [\<lparr>url = ''wss://api.lancerscape.in/ws?userId=u1'',
           readyState = CLOSED, outbox = [], ws_userId = ''u1''\<rparr>,
        \<lparr>url = ''wss://api.lancerscape.in/ws?userId=u1'',
           readyState = CONNECTING, outbox = [], ws_userId = ''u1''\<rparr>],
     timers = [\<lparr>timeout_ms = 2000, timer_state = Fired, timer_userId = ''u1''\<rparr>],
     invalidated = [],
     console = [WebSocket_connected, WebSocket_disconnected, Attempting_to_reconnect 1 5]\<rparr>"
    by (simp add: model_defs)
  have after: "run example_env ([Effect ''u1'', Open 0, Close 0, Timer 0] @ [Open 1]) initial_state = Some
    \<lparr>isConnected = True, lastMessage = Null, wsRef = Some 1,
     reconnectTimeoutRef = Some 0, reconnectAttempts = 0,
     sockets =
       [\<lparr>url = ''wss://api.lancerscape.in/ws?userId=u1'',
           readyState = CLOSED, outbox = [], ws_userId = ''u1''\<rparr>,
        \<lparr>url = ''wss://api.lancerscape.in/ws?userId=u1'', readyState = OPEN,
           outbox = [], ws_userId = ''u1''\<rparr>],
     timers = [\<lparr>timeout_ms = 2000, timer_state = Fired, timer_userId = ''u1''\<rparr>],
     invalidated = [],
     console = [WebSocket_connected, WebSocket_disconnected, Attempting_to_reconnect 1 5,
        WebSocket_connected]\<rparr>"
    by (simp add: model_defs)
  from open_resets_retry_counter [OF after] before after show ?thesis by simp
qed

text \<open>
  C7. When \<^verbatim>\<open>JSON.parse\<close> throws on the data of an inbound message, the message handler
  returns normally and only adds the error to the console: nothing is invalidated,
  \<open>lastMessage\<close> keeps its value, and the sockets, hence the connection, stay as they
  were.
\<close>

theorem malformed_message_dropped:
  assumes "JSON_parse env event_data = Inl e"
  shows "onmessage env event_data s = s\<lparr>console := console s @ [Failed_to_parse e]\<rparr>
     \<and> invalidated (onmessage env event_data s) = invalidated s
     \<and> lastMessage (onmessage env event_data s) = lastMessage s
     \<and> sockets (onmessage env event_data s) = sockets s
     \<and> isConnected (onmessage env event_data s) = isConnected s"
  using assms by (simp add: onmessage_def onmessage_try_def console_add_def)

theorem malformed_message_dropped_witness:
  "run example_env [Effect ''u1'', Open 0, Message 0 ''{type:''] initial_state = Some
    \<lparr>isConnected = True, lastMessage = Null, wsRef = Some 0,
     reconnectTimeoutRef = None, reconnectAttempts = 0,
     sockets =
       [\<lparr>url = ''wss://api.lancerscape.in/ws?userId=u1'', readyState = OPEN,
           outbox = [], ws_userId = ''u1''\<rparr>],
     timers = [], invalidated = [],
     console = [WebSocket_connected, Failed_to_parse SyntaxError]\<rparr>"
proof -
  define s0 where "s0 =
    \<lparr>isConnected = True, lastMessage = Null, wsRef = Some 0,
     reconnectTimeoutRef = None, reconnectAttempts = 0,
     sockets =
       [\<lparr>url = ''wss://api.lancerscape.in/ws?userId=u1'', readyState = OPEN,
           outbox = [], ws_userId = ''u1''\<rparr>],
     timers = [], invalidated = [], console = [WebSocket_connected]\<rparr>"
  have opened: "run example_env [Effect ''u1'', Open 0] initial_state = Some s0"
    by (simp add: s0_def model_defs)
  have bad: "JSON_parse example_env ''{type:'' = Inl SyntaxError"
    by (simp add: example_env_def)
  have "step example_env (Message 0 ''{type:'') s0 = Some (onmessage example_env ''{type:'' s0)"
    by (simp add: s0_def socket_at_def)
  with malformed_message_dropped [OF bad, of s0]
  have "step example_env (Message 0 ''{type:'') s0
     = Some (s0\<lparr>console := console s0 @ [Failed_to_parse SyntaxError]\<rparr>)"
    by simp
  from run_snoc [OF opened this] show ?thesis by (simp add: s0_def)
qed

text \<open>
  C8. \<open>sendMessage\<close> leaves the state unchanged when \<open>wsRef\<close> holds no socket (or none
  that exists) or the socket it holds is not open. When that socket is open, the only change is one frame appended
  to the socket's outbox: the serialization of the object made of the message's
  \<^verbatim>\<open>type\<close> and \<^verbatim>\<open>data\<close> and a \<^verbatim>\<open>timestamp\<close>.
\<close>

theorem sendMessage_only_when_open:
  "(wsRef s = None \<longrightarrow> sendMessage env now msg_type msg_data s = s)
   \<and> (wsRef s = Some sid \<and> socket_at s sid = None \<longrightarrow>
        sendMessage env now msg_type msg_data s = s)
   \<and> (wsRef s = Some sid \<and> socket_at s sid = Some ws \<longrightarrow>
        (readyState ws \<noteq> OPEN \<longrightarrow> sendMessage env now msg_type msg_data s = s)
        \<and> (readyState ws = OPEN \<longrightarrow>
              sendMessage env now msg_type msg_data s
                = s\<lparr>sockets := (sockets s)[sid := ws\<lparr>outbox := outbox ws
                     @ [JSON_stringify env (Obj [(''type'', Str msg_type), (''data'', msg_data),
                          (''timestamp'', Str now)])]\<rparr>]\<rparr>))"
  by (auto simp: sendMessage_def ws_send_def socket_at_def split: if_splits)

theorem sendMessage_only_when_open_witness:
  "sendMessage example_env ''2024-01-01T00:00:00.000Z'' ''notification'' Null initial_state
     = initial_state
   \<and> run example_env
        [Effect ''u1'', Send ''2024-01-01T00:00:00.000Z'' ''notification'' Null] initial_state
     = run example_env [Effect ''u1''] initial_state
   \<and> run example_env
        [Effect ''u1'', Open 0, Send ''2024-01-01T00:00:00.000Z'' ''notification'' Null]
        initial_state
     = Some \<lparr>isConnected = True, lastMessage = Null, wsRef = Some 0,
         reconnectTimeoutRef = None, reconnectAttempts = 0,
         sockets =
           [\<lparr>url = ''wss://api.lancerscape.in/ws?userId=u1'', readyState = OPEN,
              outbox = [''{\"type\":\"notification\",\"data\":null,\"timestamp\":\"2024-01-01T00:00:00.000Z\"}''],
              ws_userId = ''u1''\<rparr>],
         timers = [], invalidated = [], console = [WebSocket_connected]\<rparr>"
proof -
  define c where "c = \<lparr>url = ''wss://api.lancerscape.in/ws?userId=u1'', readyState = CONNECTING,
    outbox = [], ws_userId = ''u1''\<rparr>"
  define s1 where "s1 = initial_state\<lparr>sockets := [c], wsRef := Some 0\<rparr>"
  define s2 where "s2 = s1\<lparr>sockets := [c\<lparr>readyState := OPEN\<rparr>], isConnected := True,
    console := [WebSocket_connected]\<rparr>"
  have r1: "run example_env [Effect ''u1''] initial_state = Some s1"
    by (simp add: s1_def c_def model_defs)
  have r2: "run example_env [Effect ''u1'', Open 0] initial_state = Some s2"
    by (simp add: s2_def s1_def c_def model_defs)
  have a: "sendMessage example_env ''2024-01-01T00:00:00.000Z'' ''notification'' Null initial_state
      = initial_state"
    using sendMessage_only_when_open [of initial_state] by (simp add: initial_state_def)
  have b: "sendMessage example_env ''2024-01-01T00:00:00.000Z'' ''notification'' Null s1 = s1"
    using sendMessage_only_when_open [of s1 example_env _ _ _ 0 c]
    by (simp add: s1_def c_def socket_at_def initial_state_def)
  have d: "sendMessage example_env ''2024-01-01T00:00:00.000Z'' ''notification'' Null s2
      = s2\<lparr>sockets := [c\<lparr>readyState := OPEN, outbox :=
          [''{\"type\":\"notification\",\"data\":null,\"timestamp\":\"2024-01-01T00:00:00.000Z\"}'']\<rparr>]\<rparr>"
    using sendMessage_only_when_open [of s2 example_env "''2024-01-01T00:00:00.000Z''"
        "''notification''" Null 0 "c\<lparr>readyState := OPEN\<rparr>"]
    by (simp add: s2_def s1_def c_def socket_at_def initial_state_def example_env_def)
  from b have "step example_env (Send ''2024-01-01T00:00:00.000Z'' ''notification'' Null) s1
      = Some s1"
    by simp
  from run_snoc [OF r1 this] r1 have e: "run example_env
      [Effect ''u1'', Send ''2024-01-01T00:00:00.000Z'' ''notification'' Null] initial_state
      = run example_env [Effect ''u1''] initial_state"
    by simp
  from d have "step example_env (Send ''2024-01-01T00:00:00.000Z'' ''notification'' Null) s2
      = Some (s2\<lparr>sockets := [c\<lparr>readyState := OPEN, outbox :=
          [''{\"type\":\"notification\",\"data\":null,\"timestamp\":\"2024-01-01T00:00:00.000Z\"}'']\<rparr>]\<rparr>)"
    by simp
  from run_snoc [OF r2 this] have f: "run example_env
      [Effect ''u1'', Open 0, Send ''2024-01-01T00:00:00.000Z'' ''notification'' Null]
      initial_state
      = Some (s2\<lparr>sockets := [c\<lparr>readyState := OPEN, outbox :=
          [''{\"type\":\"notification\",\"data\":null,\"timestamp\":\"2024-01-01T00:00:00.000Z\"}'']\<rparr>]\<rparr>)"
    by simp
  show ?thesis
    unfolding e f using a by (simp add: s2_def s1_def c_def initial_state_def)
qed

section \<open>Configuration\<close>

text \<open>
  C9, as claimed, fails: with \<^verbatim>\<open>VITE_WS_URL\<close> absent, running the effect for user
  \<^verbatim>\<open>u1\<close> constructs a socket for the built-in default endpoint and makes it the current
  socket.
\<close>

theorem absent_push_url_still_connects:
  "VITE_WS_URL example_env = None
   \<and> sockets (effect_run example_env ''u1'' initial_state)
       = [\<lparr>url = ''wss://api.lancerscape.in/ws?userId=u1'', readyState = CONNECTING,
            outbox = [], ws_userId = ''u1''\<rparr>]
   \<and> wsRef (effect_run example_env ''u1'' initial_state) = Some 0"
  by (simp add: model_defs)

text \<open>
  C9, amended. When \<^verbatim>\<open>VITE_WS_URL\<close> is absent or empty, the URL is the built-in default
  \<^verbatim>\<open>wss://api.lancerscape.in\<close> followed by \<^verbatim>\<open>/ws?userId=\<close> and the user id, and the
  effect, for a non-empty user id, constructs a connecting socket for that URL and makes
  it the current socket; if the constructor throws, the error is caught and logged and
  nothing else changes.
\<close>

theorem absent_push_url_default:
  assumes "VITE_WS_URL env = None \<or> VITE_WS_URL env = Some []"
    and "userId \<noteq> []"
  shows "wsUrl env userId = ''wss://api.lancerscape.in/ws?userId='' @ userId
     \<and> effect_run env userId s =
        (if url_ok env (wsUrl env userId)
         then s\<lparr>sockets := sockets s @ [\<lparr>url = wsUrl env userId, readyState = CONNECTING,
                   outbox = [], ws_userId = userId\<rparr>], wsRef := Some (length (sockets s))\<rparr>
         else s\<lparr>console := console s @ [Failed_to_connect SyntaxError]\<rparr>)"
  using assms
  by (auto simp: effect_run_def connect_def connect_try_def new_WebSocket_def wsUrl_def
      console_add_def)

theorem absent_push_url_default_witness:
  "wsUrl example_env ''u1'' = ''wss://api.lancerscape.in/ws?userId=u1''
   \<and> effect_run example_env ''u1'' initial_state
       = initial_state\<lparr>sockets := [\<lparr>url = ''wss://api.lancerscape.in/ws?userId=u1'',
            readyState = CONNECTING, outbox = [], ws_userId = ''u1''\<rparr>], wsRef := Some 0\<rparr>"
  using absent_push_url_default [of example_env "''u1''" initial_state]
  by (simp add: example_env_def initial_state_def)

section \<open>Milestone board\<close>

text \<open>
  The three columns of the board partition the milestone list: as multisets they add up
  to the list, and no milestone is in two columns.
\<close>

lemma groupedMilestones_partition:
  "mset (pending_col (groupedMilestones milestones))
     + mset (in_progress_col (groupedMilestones milestones))
     + mset (completed_col (groupedMilestones milestones)) = mset milestones
   \<and> set (pending_col (groupedMilestones milestones))
       \<inter> set (in_progress_col (groupedMilestones milestones)) = {}
   \<and> set (pending_col (groupedMilestones milestones))
       \<inter> set (completed_col (groupedMilestones milestones)) = {}
   \<and> set (in_progress_col (groupedMilestones milestones))
       \<inter> set (completed_col (groupedMilestones milestones)) = {}"
proof -
  have "mset (filter (\<lambda>m. status m = pending) ms)
      + mset (filter (\<lambda>m. status m = in_progress) ms)
      + mset (filter (\<lambda>m. status m = completed) ms) = mset ms" for ms :: "'a Milestone list"
  proof (induction ms)
    case Nil
    then show ?case by simp
  next
    case (Cons m ms)
    then show ?case by (cases "status m") simp_all
  qed
  then show ?thesis by (auto simp: groupedMilestones_def)
qed

text \<open>
  The division is guarded: where the total is not greater than zero the percentage is the
  literal \<^verbatim>\<open>0\<close> and does not depend on what division does.
\<close>

lemma progressPercentage_guard:
  assumes "\<not> js_gt ops (totalAmount ops milestones) (js_zero ops)"
  shows "progressPercentage ops milestones = js_zero ops
     \<and> progressPercentage (ops\<lparr>js_div := any_div\<rparr>) milestones = js_zero ops"
  using assms by (simp add: progressPercentage_def totalAmount_def)

end
